theory Spec2Isabelle
  imports Main
begin

section \<open>Authentication core of the clinic backend (auth.py, models.py)\<close>

text \<open>
  Python strings are modelled as \<^typ>\<open>string\<close>, each \<^typ>\<open>char\<close> standing for one code
  point in the range 0..255, so \<^const>\<open>length\<close> is Python's \<open>len\<close> on such strings. On
  this range the regular-expression class \<open>\d\<close> matches exactly the ten characters
  \<open>0\<close>..\<open>9\<close>, and \<open>[A-Za-z]\<close> the 52 unaccented letters.
\<close>

subsection \<open>Character classes and string helpers\<close>

definition ascii_uppercase :: string where
  "ascii_uppercase = ''ABCDEFGHIJKLMNOPQRSTUVWXYZ''"

definition ascii_lowercase :: string where
  "ascii_lowercase = ''abcdefghijklmnopqrstuvwxyz''"

definition is_letter :: "char \<Rightarrow> bool" where
  \<comment> \<open>the class \<open>[A-Za-z]\<close>\<close>
  "is_letter c = (c \<in> set (ascii_uppercase @ ascii_lowercase))"

definition is_digit :: "char \<Rightarrow> bool" where
  \<comment> \<open>the class \<open>\d\<close>; its complement is \<open>\D\<close>\<close>
  "is_digit c = (c \<in> set ''0123456789'')"

definition is_alnum :: "char \<Rightarrow> bool" where
  \<comment> \<open>the class \<open>[A-Za-z\d]\<close>\<close>
  "is_alnum c = (is_letter c \<or> is_digit c)"

definition newline :: char where
  "newline = CHR 0x0A"

definition startswith :: "string \<Rightarrow> string \<Rightarrow> bool" where
  \<comment> \<open>\<open>s.startswith(p)\<close>\<close>
  "startswith s p = (take (length p) s = p)"

subsection \<open>The password pattern\<close>

text \<open>
  \<open>validate_password\<close> is \<open>bool(re.match(r'^(?=.*[A-Za-z])(?=.*\d)[A-Za-z\d]{8,}$', password))\<close>.
  \<open>re.match\<close> tries the pattern at position 0 only. Each piece of the pattern is a matcher
  on the rest of the subject:
  \<^item> \<open>(?=.*[P])\<close> succeeds when some character of class \<open>P\<close> is reachable over characters
    that \<open>.\<close> accepts; without the DOTALL flag \<open>.\<close> accepts everything but a newline;
  \<^item> \<open>$\<close>, without the MULTILINE flag, succeeds at the end of the subject and also just before
    a newline that is the subject's last character;
  \<^item> \<open>[P]{n,}$\<close> consumes characters of class \<open>P\<close> and may stop (backtracking included)
    wherever at least \<open>n\<close> have been consumed and \<open>$\<close> succeeds.
\<close>

fun lookahead_dotstar :: "(char \<Rightarrow> bool) \<Rightarrow> string \<Rightarrow> bool" where
  "lookahead_dotstar P [] = False"
| "lookahead_dotstar P (c # cs) = (P c \<or> (c \<noteq> newline \<and> lookahead_dotstar P cs))"

definition dollar :: "string \<Rightarrow> bool" where
  "dollar rest = (rest = [] \<or> rest = [newline])"

fun repeat_at_least_dollar :: "(char \<Rightarrow> bool) \<Rightarrow> nat \<Rightarrow> string \<Rightarrow> bool" where
  "repeat_at_least_dollar P n [] = (n = 0)"
| "repeat_at_least_dollar P n (c # cs) =
     ((n = 0 \<and> dollar (c # cs)) \<or> (P c \<and> repeat_at_least_dollar P (n - 1) cs))"

definition validate_password :: "string \<Rightarrow> bool" where
  "validate_password password =
     (lookahead_dotstar is_letter password \<and>
      lookahead_dotstar is_digit password \<and>
      repeat_at_least_dollar is_alnum 8 password)"

subsection \<open>Phone numbers\<close>

definition SAFARICOM_PREFIXES :: "string list" where
  "SAFARICOM_PREFIXES =
    [''0701'', ''0702'', ''0703'', ''0704'', ''0705'', ''0706'', ''0707'', ''0708'', ''0709'',
     ''0710'', ''0711'', ''0712'', ''0713'', ''0714'', ''0715'', ''0716'', ''0717'', ''0718'', ''0719'',
     ''0720'', ''0721'', ''0722'', ''0723'', ''0724'', ''0725'', ''0726'', ''0727'', ''0728'', ''0729'',
     ''0740'', ''0741'', ''0742'', ''0743'', ''0744'', ''0745'', ''0746'', ''0747'', ''0748'', ''0749'',
     ''0757'', ''0758'', ''0768'', ''0769'', ''0790'', ''0791'', ''0792'', ''0793'', ''0794'', ''0795'',
     ''0796'', ''0797'', ''0798'', ''0799'', ''0110'', ''0111'', ''0112'', ''0113'', ''0114'', ''0115'']"

definition normalize_phone :: "string \<Rightarrow> string" where
  \<comment> \<open>\<open>re.sub(r"\D", "", phone)\<close> keeps the digits, in order\<close>
  "normalize_phone phone0 =
     (if phone0 = [] then []
      else let phone = filter is_digit phone0 in
        if startswith phone ''+254'' then ''0'' @ drop 4 phone
        else if startswith phone ''254'' \<and> length phone = 12 then ''0'' @ drop 3 phone
        else phone)"

text \<open>
  The \<open>phonenumbers\<close> library is not part of the repository. Its verdict on a string, for
  the region \<open>KE\<close> that every caller uses, is a parameter: \<open>pn.parse\<close> raises
  \<open>NumberParseException\<close>, or it returns a number that \<open>pn.is_valid_number\<close> accepts or
  rejects.
\<close>

datatype pn_outcome = NumberParseException | InvalidNumber | ValidNumber

definition is_valid_safaricom_phone :: "(string \<Rightarrow> pn_outcome) \<Rightarrow> string \<Rightarrow> bool" where
  "is_valid_safaricom_phone pn phone0 =
     (let phone = normalize_phone phone0 in
      if phone = [] \<or> length phone < 10 then False
      else (case pn phone of
              NumberParseException \<Rightarrow> False
            | InvalidNumber \<Rightarrow> False
            | ValidNumber \<Rightarrow> take 4 phone \<in> set SAFARICOM_PREFIXES))"

subsection \<open>JSON values, responses and exceptions\<close>

datatype json = JNull | JBool bool | JInt int | JStr string | JObj "(string \<times> json) list"

text \<open>A view returns \<open>jsonify(body), status\<close>.\<close>

type_synonym response = "json \<times> nat"

definition msg :: "string \<Rightarrow> json" where
  "msg text = JObj [(''msg'', JStr text)]"

definition err :: "string \<Rightarrow> json" where
  "err text = JObj [(''error'', JStr text)]"

datatype py_exception =
    TypeError
  | IntegrityError
  | JWTError
  | OtherException string

text \<open>
  A request body is a JSON object whose fields are strings; \<open>data.get(k)\<close> is \<open>data k\<close>,
  \<open>None\<close> for a field that is absent or null. \<open>not x\<close> holds for \<open>None\<close> and for
  the empty string.
\<close>

type_synonym body = "string \<rightharpoonup> string"

definition falsy :: "string option \<Rightarrow> bool" where
  "falsy x = (case x of None \<Rightarrow> True | Some s \<Rightarrow> s = [])"

fun truthy :: "json \<Rightarrow> bool" where
  "truthy JNull = False"
| "truthy (JBool b) = b"
| "truthy (JInt i) = (i \<noteq> 0)"
| "truthy (JStr s) = (s \<noteq> [])"
| "truthy (JObj kvs) = (kvs \<noteq> [])"

subsection \<open>The users table (models.py)\<close>

datatype UserRoles = ADMIN | DOCTOR | NURSE | PATIENT | RECEPTIONIST

fun role_value :: "UserRoles \<Rightarrow> string" where
  "role_value ADMIN = ''ADMIN''"
| "role_value DOCTOR = ''DOCTOR''"
| "role_value NURSE = ''NURSE''"
| "role_value PATIENT = ''PATIENT''"
| "role_value RECEPTIONIST = ''RECEPTIONIST''"

text \<open>
  A stored row of \<open>users\<close>. The columns \<open>gender\<close>, \<open>date_of_birth\<close>, \<open>address\<close> and
  \<open>created_at\<close> are never read or written by auth.py and are left out. The columns below are
  all \<open>nullable=False\<close>; \<open>email\<close> and \<open>phone_number\<close> are \<open>unique=True\<close>.
\<close>

record user =
  user_id :: nat
  userfullnames :: string
  password :: string
  email :: string
  phone_number :: string
  role :: UserRoles

text \<open>A \<open>User(...)\<close> object before it is flushed: any keyword may be \<open>None\<close> or left out.\<close>

record pending_user =
  new_userfullnames :: "string option"
  new_password :: "string option"
  new_email :: "string option"
  new_phone_number :: "string option"
  new_role :: UserRoles

type_synonym store = "user list"

definition query_by_email :: "store \<Rightarrow> string option \<Rightarrow> user option" where
  \<comment> \<open>\<open>User.query.filter_by(email=e).first()\<close>; no row has a null email\<close>
  "query_by_email db e = (case e of None \<Rightarrow> None | Some v \<Rightarrow> find (\<lambda>u. email u = v) db)"

definition query_by_phone :: "store \<Rightarrow> string option \<Rightarrow> user option" where
  \<comment> \<open>\<open>User.query.filter_by(phone_number=p).first()\<close>\<close>
  "query_by_phone db p = (case p of None \<Rightarrow> None | Some v \<Rightarrow> find (\<lambda>u. phone_number u = v) db)"

definition fresh_id :: "store \<Rightarrow> nat" where
  "fresh_id db = Suc (fold max (map user_id db) 0)"

subsection \<open>External collaborators\<close>

text \<open>
  Libraries and services outside the repository are parameters, collected in one record:
  \<^item> \<open>validate_email\<close>: \<open>email_validator.validate_email(e, check_deliverability=True)\<close>
    returns, raises \<open>EmailNotValidError\<close>, or raises something else;
  \<^item> \<open>pn_verdict\<close>: the \<open>phonenumbers\<close> verdict for region \<open>KE\<close>;
  \<^item> \<open>generate_password_hash\<close>, \<open>check_password_hash\<close>: werkzeug;
  \<^item> \<open>create_access_token\<close>: flask_jwt_extended, from the identity and the additional claims
    (the lifetime is the constant 30 days);
  \<^item> \<open>commit_fault\<close>: the store refuses a commit for a reason of its own (connection lost,
    a column too long, ...), beyond the NOT NULL and UNIQUE constraints of models.py;
  \<^item> \<open>unsign\<close>: itsdangerous' check of a signed token under the salt
    \<open>reset-password-salt\<close>: \<open>None\<close> for a bad or tampered token, else the payload and the
    token's age in seconds;
  \<^item> \<open>oauth_userinfo\<close>: what the identity provider does on the code exchange followed by the
    user-info request: an exception (its text), or the profile, a JSON object of strings or null;
  \<^item> \<open>str_exc\<close>: Python's \<open>str(e)\<close>.
\<close>

datatype email_outcome = Returns | RaisesEmailNotValidError | RaisesOther py_exception

record env =
  validate_email :: "string option \<Rightarrow> email_outcome"
  pn_verdict :: "string \<Rightarrow> pn_outcome"
  generate_password_hash :: "string \<Rightarrow> string"
  check_password_hash :: "string \<Rightarrow> string \<Rightarrow> bool"
  create_access_token :: "string \<Rightarrow> (string \<times> json) list \<Rightarrow> string"
  commit_fault :: "string option"
  unsign :: "string \<Rightarrow> (string \<times> nat) option"
  oauth_userinfo :: "string + (string \<times> string) list option"
  str_exc :: "py_exception \<Rightarrow> string"

definition db_add_commit :: "env \<Rightarrow> pending_user \<Rightarrow> store \<Rightarrow> py_exception + user \<times> store" where
  \<comment> \<open>\<open>db.session.add(u); db.session.commit()\<close>: the row as stored, and the new table\<close>
  "db_add_commit e u db =
     (case commit_fault e of
        Some text \<Rightarrow> Inl (OtherException text)
      | None \<Rightarrow>
         (case (new_userfullnames u, new_password u, new_email u, new_phone_number u) of
            (Some n, Some h, Some a, Some p) \<Rightarrow>
               if list_ex (\<lambda>r. email r = a) db then Inl IntegrityError
               else if list_ex (\<lambda>r. phone_number r = p) db then Inl IntegrityError
               else let row = \<lparr>user_id = fresh_id db, userfullnames = n, password = h,
                                email = a, phone_number = p, role = new_role u\<rparr>
                    in Inr (row, db @ [row])
          | _ \<Rightarrow> Inl IntegrityError))"

definition is_valid_email :: "env \<Rightarrow> string option \<Rightarrow> py_exception + bool" where
  "is_valid_email e a =
     (case validate_email e a of
        Returns \<Rightarrow> Inr True
      | RaisesEmailNotValidError \<Rightarrow> Inr False
      | RaisesOther x \<Rightarrow> Inl x)"

definition phone_ok :: "env \<Rightarrow> string option \<Rightarrow> bool" where
  \<comment> \<open>\<open>is_valid_safaricom_phone(phone)\<close> on a field: \<open>normalize_phone(None)\<close> returns
      the empty string by its first test, which the length test then rejects\<close>
  "phone_ok e p = (case p of None \<Rightarrow> False | Some s \<Rightarrow> is_valid_safaricom_phone (pn_verdict e) s)"

fun capitalize :: "string \<Rightarrow> string" where
  \<comment> \<open>\<open>str.capitalize\<close> on unaccented letters, all that a role name has\<close>
  "capitalize [] = []"
| "capitalize (c # cs) =
     (case map_of (zip ascii_lowercase ascii_uppercase) c of Some C \<Rightarrow> C | None \<Rightarrow> c) #
     map (\<lambda>d. case map_of (zip ascii_uppercase ascii_lowercase) d of Some l \<Rightarrow> l | None \<Rightarrow> d) cs"

subsection \<open>Token issuing and the role gate\<close>

fun str_nat :: "nat \<Rightarrow> string" where
  \<comment> \<open>\<open>str(n)\<close> for a non-negative integer\<close>
  "str_nat n =
     (if n < 10 then [''0123456789'' ! n]
      else str_nat (n div 10) @ [''0123456789'' ! (n mod 10)])"

definition generate_token :: "env \<Rightarrow> user \<Rightarrow> string" where
  "generate_token e u =
     create_access_token e (str_nat (user_id u))
       [(''email'', JStr (email u)), (''role'', JStr (role_value (role u)))]"

text \<open>
  A view takes the store and returns what it answers, or the exception it lets escape, with
  the store as committed. \<open>role_required(required_role)(fn)\<close> wraps a view; its argument
  \<open>jwt\<close> is what \<open>verify_jwt_in_request()\<close> and \<open>get_jwt()\<close> give for the request:
  \<open>None\<close> when the token is missing or not valid (the verification raises), else the claims.
\<close>

type_synonym 'st view = "'st \<Rightarrow> (py_exception + response) \<times> 'st"

definition role_required :: "string \<Rightarrow> (string \<rightharpoonup> json) option \<Rightarrow> 'st view \<Rightarrow> 'st view" where
  "role_required required_role jwt fn st =
     (case jwt of
        None \<Rightarrow> (Inl JWTError, st)
      | Some claims \<Rightarrow>
          if ''role'' \<notin> dom claims \<or> claims ''role'' \<noteq> Some (JStr required_role)
          then (Inr (msg ''Forbidden: Access Denied'', 403), st)
          else fn st)"

subsection \<open>Registration\<close>

definition invalid_email :: response where
  "invalid_email = (msg ''Invalid email address'', 400)"

definition invalid_phone :: response where
  "invalid_phone = (msg ''Invalid phone number. Must be a valid Safaricom number.'', 400)"

definition weak_password :: response where
  "weak_password =
     (msg ''Password must be at least 8 characters long, contain letters and numbers'', 400)"

definition already_registered :: response where
  "already_registered = (msg ''Email or phone number already registered'', 400)"

definition register :: "env \<Rightarrow> body \<Rightarrow> store view" where
  "register e data db =
     (let a = data ''email''; phone = data ''phone''; pw = data ''password'';
          names = data ''userfullnames''; r = PATIENT in
      case is_valid_email e a of
        Inl x \<Rightarrow> (Inl x, db)
      | Inr valid \<Rightarrow>
          if \<not> valid then (Inr invalid_email, db)
          else if falsy phone \<or> \<not> phone_ok e phone then (Inr invalid_phone, db)
          else (case pw of
                  None \<Rightarrow> (Inl TypeError, db)
                | Some p \<Rightarrow>
                    if \<not> validate_password p then (Inr weak_password, db)
                    else if query_by_email db a \<noteq> None \<or> query_by_phone db phone \<noteq> None
                    then (Inr already_registered, db)
                    else (case db_add_commit e
                                 \<lparr>new_userfullnames = names,
                                  new_password = Some (generate_password_hash e p),
                                  new_email = a, new_phone_number = phone, new_role = r\<rparr> db of
                            Inl x \<Rightarrow> (Inl x, db)
                          | Inr (row, db') \<Rightarrow> (Inr (msg ''User registered successfully'', 201), db'))))"

definition register_admin :: "env \<Rightarrow> body \<Rightarrow> store view" where
  \<comment> \<open>the body of the view; the decorator is applied in \<open>register_admin_route\<close>\<close>
  "register_admin e data db =
     (let names = data ''userfullnames''; a = data ''email''; phone = data ''phone'';
          pw = data ''password'' in
      case is_valid_email e a of
        Inl x \<Rightarrow> (Inl x, db)
      | Inr valid \<Rightarrow>
          if \<not> valid then (Inr invalid_email, db)
          else if \<not> phone_ok e phone then (Inr invalid_phone, db)
          else (case pw of
                  None \<Rightarrow> (Inl TypeError, db)
                | Some p \<Rightarrow>
                    if \<not> validate_password p then (Inr weak_password, db)
                    else if query_by_email db a \<noteq> None \<or> query_by_phone db phone \<noteq> None
                    then (Inr already_registered, db)
                    else (case db_add_commit e
                                 \<lparr>new_userfullnames = names,
                                  new_password = Some (generate_password_hash e p),
                                  new_email = a, new_phone_number = phone, new_role = ADMIN\<rparr> db of
                            Inl x \<Rightarrow> (Inl x, db)
                          | Inr (row, db') \<Rightarrow> (Inr (msg ''Admin registered successfully'', 201), db'))))"

definition register_user :: "env \<Rightarrow> UserRoles \<Rightarrow> body \<Rightarrow> store view" where
  \<comment> \<open>the \<open>try\<close> block catches every exception of the insert, rolls back and answers 500\<close>
  "register_user e r data db =
     (let a = data ''email''; phone = data ''phone''; pw = data ''password'';
          names = data ''userfullnames'' in
      if falsy a \<or> falsy phone \<or> falsy pw \<or> falsy names
      then (Inr (msg ''Email, phone, password, and full names are required'', 400), db)
      else (case is_valid_email e a of
        Inl x \<Rightarrow> (Inl x, db)
      | Inr valid \<Rightarrow>
          if \<not> valid then (Inr invalid_email, db)
          else if \<not> phone_ok e phone then (Inr invalid_phone, db)
          else (case pw of
                  None \<Rightarrow> (Inl TypeError, db)
                | Some p \<Rightarrow>
                    if \<not> validate_password p then (Inr weak_password, db)
                    else if query_by_email db a \<noteq> None \<or> query_by_phone db phone \<noteq> None
                    then (Inr already_registered, db)
                    else (case db_add_commit e
                                 \<lparr>new_userfullnames = names,
                                  new_password = Some (generate_password_hash e p),
                                  new_email = a, new_phone_number = phone, new_role = r\<rparr> db of
                            Inl x \<Rightarrow>
                              (Inr (JObj [(''msg'', JStr ''Internal Server Error''),
                                          (''error'', JStr (str_exc e x))], 500), db)
                          | Inr (row, db') \<Rightarrow>
                              (Inr (msg (capitalize (role_value r) @ '' registered successfully''),
                                    201), db')))))"

text \<open>The routes under \<open>/admin\<close>: each view behind the gate for the role \<open>ADMIN\<close>.\<close>

definition register_admin_route :: "env \<Rightarrow> (string \<rightharpoonup> json) option \<Rightarrow> body \<Rightarrow> store view" where
  "register_admin_route e jwt data = role_required ''ADMIN'' jwt (register_admin e data)"

definition register_doctor :: "env \<Rightarrow> (string \<rightharpoonup> json) option \<Rightarrow> body \<Rightarrow> store view" where
  "register_doctor e jwt data = role_required ''ADMIN'' jwt (register_user e DOCTOR data)"

definition register_nurse :: "env \<Rightarrow> (string \<rightharpoonup> json) option \<Rightarrow> body \<Rightarrow> store view" where
  "register_nurse e jwt data = role_required ''ADMIN'' jwt (register_user e NURSE data)"

definition register_receptionist :: "env \<Rightarrow> (string \<rightharpoonup> json) option \<Rightarrow> body \<Rightarrow> store view" where
  "register_receptionist e jwt data =
     role_required ''ADMIN'' jwt (register_user e RECEPTIONIST data)"

subsection \<open>Login\<close>

definition invalid_credentials :: response where
  "invalid_credentials = (err ''Invalid email or password'', 401)"

definition login :: "env \<Rightarrow> body \<Rightarrow> store \<Rightarrow> response" where
  "login e data db =
     (let a = data ''email''; pw = data ''password'' in
      if falsy a \<or> falsy pw then (err ''Email and password are required'', 400)
      else (case (query_by_email db a, pw) of
              (Some u, Some p) \<Rightarrow>
                 if \<not> check_password_hash e (password u) p then invalid_credentials
                 else (JObj [(''message'', JStr ''Login successful''),
                             (''access_token'', JStr (generate_token e u)),
                             (''user'', JObj [(''id'', JInt (int (user_id u))),
                                              (''email'', JStr (email u)),
                                              (''role'', JStr (role_value (role u)))])], 200)
            | _ \<Rightarrow> invalid_credentials))"

subsection \<open>Password reset\<close>

definition serializer_loads :: "env \<Rightarrow> string \<Rightarrow> nat \<Rightarrow> string option" where
  \<comment> \<open>\<open>serializer.loads(token, salt="reset-password-salt", max_age=m)\<close>; \<open>None\<close> when it
      raises: a bad signature, or a good one with an age above \<open>max_age\<close>\<close>
  "serializer_loads e token max_age =
     (case unsign e token of
        None \<Rightarrow> None
      | Some (payload, age) \<Rightarrow> if age > max_age then None else Some payload)"

definition set_password :: "store \<Rightarrow> user \<Rightarrow> string \<Rightarrow> store" where
  \<comment> \<open>\<open>user.password = h\<close> on a loaded row, written back by its primary key\<close>
  "set_password db u h = map (\<lambda>r. if user_id r = user_id u then r\<lparr>password := h\<rparr> else r) db"

definition reset_password :: "env \<Rightarrow> string \<Rightarrow> body \<Rightarrow> store view" where
  "reset_password e token data db =
     (case serializer_loads e token 3600 of
        None \<Rightarrow> (Inr (msg ''Invalid or expired token'', 400), db)
      | Some a \<Rightarrow>
          (let new_password = data ''password'' in
           if falsy new_password \<or> length (case new_password of None \<Rightarrow> [] | Some p \<Rightarrow> p) < 6
           then (Inr (msg ''Password must be at least 6 characters long'', 400), db)
           else (case query_by_email db (Some a) of
                   None \<Rightarrow> (Inr (msg ''User not found'', 404), db)
                 | Some u \<Rightarrow>
                     (case commit_fault e of
                        Some text \<Rightarrow> (Inl (OtherException text), db)
                      | None \<Rightarrow>
                          (Inr (msg ''Password reset successful'', 200),
                           set_password db u
                             (generate_password_hash e
                                (case new_password of None \<Rightarrow> [] | Some p \<Rightarrow> p)))))))"

subsection \<open>The OAuth callback\<close>

text \<open>
  The Flask session is a dictionary from keys to JSON values. \<open>received_state\<close> is
  \<open>request.args.get("state")\<close>. The whole view runs inside \<open>try ... except Exception\<close>, so
  it always answers. \<open>session.pop("oauth_state", None)\<close> removes the key and gives what
  was stored.
\<close>

type_synonym session = "string \<rightharpoonup> json"

definition csrf_error :: response where
  "csrf_error = (err ''Invalid state, possible CSRF attack'', 400)"

definition establish :: "env \<Rightarrow> user \<Rightarrow> session \<Rightarrow> response \<times> session" where
  \<comment> \<open>the tail of the view once \<open>user\<close> is known\<close>
  "establish e u s =
     ((JObj [(''msg'', JStr ''Login successful''),
             (''access_token'', JStr (generate_token e u))], 200),
      s(''user_id'' \<mapsto> JInt (int (user_id u)),
        ''user_email'' \<mapsto> JStr (email u),
        ''user_role'' \<mapsto> JStr (role_value (role u))))"

definition google_callback ::
  "env \<Rightarrow> string option \<Rightarrow> session \<Rightarrow> store \<Rightarrow> response \<times> session \<times> store" where
  "google_callback e received_state session0 db =
     (let stored_state = session0 ''oauth_state'';
          s = session0(''oauth_state'' := None) in
      if (case stored_state of None \<Rightarrow> True | Some v \<Rightarrow> \<not> truthy v) \<or> falsy received_state
         \<or> stored_state \<noteq> map_option JStr received_state
      then (csrf_error, s, db)
      else (case oauth_userinfo e of
              Inl text \<Rightarrow> ((err text, 500), s, db)
            | Inr user_info \<Rightarrow>
                (case user_info of
                   None \<Rightarrow> ((err ''Failed to retrieve user information'', 400), s, db)
                 | Some kvs \<Rightarrow>
                     if kvs = [] \<or> map_of kvs ''email'' = None
                     then ((err ''Failed to retrieve user information'', 400), s, db)
                     else
                       (let a = map_of kvs ''email'';
                            name = (case map_of kvs ''name'' of None \<Rightarrow> [] | Some n \<Rightarrow> n) in
                        case query_by_email db a of
                          Some u \<Rightarrow> (let (r, s') = establish e u s in (r, s', db))
                        | None \<Rightarrow>
                            (case db_add_commit e
                                    \<lparr>new_userfullnames = Some name, new_password = None,
                                     new_email = a, new_phone_number = None,
                                     new_role = PATIENT\<rparr> db of
                               Inl x \<Rightarrow> ((err (str_exc e x), 500), s, db)
                             | Inr (u, db') \<Rightarrow>
                                 (let (r, s') = establish e u s in (r, s', db')))))))"

subsection \<open>A sample environment and sample data\<close>

text \<open>
  One concrete choice of the collaborators, for evaluating the views on concrete requests:
  an address is deliverable when it contains \<open>@\<close>, a phone number is valid when it has ten
  characters, hashing prefixes \<open>hash:\<close>, the token \<open>good\<close> is ten seconds old and the
  token \<open>old\<close> 3601 seconds, both signed for \<open>ann@clinic.org\<close>, and the store commits.
\<close>

definition sample_env :: env where
  "sample_env =
     \<lparr>validate_email =
        (\<lambda>a. case a of None \<Rightarrow> RaisesOther TypeError
              | Some s \<Rightarrow> if CHR ''@'' \<in> set s then Returns else RaisesEmailNotValidError),
      pn_verdict = (\<lambda>s. if length s = 10 then ValidNumber else InvalidNumber),
      generate_password_hash = (\<lambda>p. ''hash:'' @ p),
      check_password_hash = (\<lambda>h p. h = ''hash:'' @ p),
      create_access_token = (\<lambda>i claims. ''jwt-'' @ i),
      commit_fault = None,
      unsign =
        (\<lambda>t. if t = ''good'' then Some (''ann@clinic.org'', 10)
             else if t = ''old'' then Some (''ann@clinic.org'', 3601) else None),
      oauth_userinfo = Inr (Some [(''email'', ''ann@clinic.org''), (''name'', ''Ann'')]),
      str_exc = (\<lambda>x. ''database error'')\<rparr>"

definition ann :: user where
  "ann = \<lparr>user_id = 1, userfullnames = ''Ann'', password = ''hash:abc12345'',
          email = ''ann@clinic.org'', phone_number = ''0712345678'', role = PATIENT\<rparr>"

definition sample_body :: "string \<Rightarrow> string \<Rightarrow> string \<Rightarrow> string \<Rightarrow> body" where
  "sample_body a p pw n =
     [''email'' \<mapsto> a, ''phone'' \<mapsto> p, ''password'' \<mapsto> pw, ''userfullnames'' \<mapsto> n]"

section \<open>Properties\<close>

subsection \<open>Validators\<close>

lemmas char_classes =
  is_alnum_def is_letter_def is_digit_def newline_def dollar_def
  ascii_uppercase_def ascii_lowercase_def

lemma normalize_phone_local_0712: "normalize_phone ''0712345678'' = ''0712345678''"
  by (simp add: normalize_phone_def is_digit_def startswith_def)

lemma normalize_phone_local_0700: "normalize_phone ''0700000000'' = ''0700000000''"
  by (simp add: normalize_phone_def is_digit_def startswith_def)

lemma normalize_phone_examples:
  "normalize_phone ''+254712345678'' = ''0712345678''"
  "normalize_phone ''254712345678'' = ''0712345678''"
  "normalize_phone [] = []"
  by (simp_all add: normalize_phone_def is_digit_def startswith_def)

text \<open>
  What the two string functions compute on every input: the test for \<open>+254\<close> in
  \<open>normalize_phone\<close> can never succeed on a string of digits, and the password pattern
  accepts a body of at least eight letters and digits, with a letter and a digit among them,
  alone or followed by one newline.
\<close>

lemma plus_not_digit: "\<not> is_digit CHR ''+''"
  by (simp add: is_digit_def)

lemma digits_never_start_with_plus: "\<not> startswith (filter is_digit s) ''+254''"
proof
  assume "startswith (filter is_digit s) ''+254''"
  then obtain r where "filter is_digit s = CHR ''+'' # r"
    by (cases "filter is_digit s") (auto simp: startswith_def)
  then have "CHR ''+'' \<in> set (filter is_digit s)" by simp
  then show False using plus_not_digit by simp
qed

lemma normalize_phone_effective:
  "normalize_phone s =
     (let d = filter is_digit s in
      if startswith d ''254'' \<and> length d = 12 then ''0'' @ drop 3 d else d)"
  using digits_never_start_with_plus [of s]
  by (cases "s = []") (simp_all add: normalize_phone_def Let_def startswith_def)

lemma newline_not_alnum: "\<not> is_alnum newline"
  by (simp add: char_classes)

lemma repeat_at_least_dollar_iff:
  "repeat_at_least_dollar P n s \<longleftrightarrow>
     (\<exists>b. (s = b \<or> s = b @ [newline]) \<and> n \<le> length b \<and> list_all P b)"
proof (induction s arbitrary: n)
  case Nil
  then show ?case by auto
next
  case (Cons c cs)
  show ?case
  proof
    assume "repeat_at_least_dollar P n (c # cs)"
    then consider "n = 0" "dollar (c # cs)" | "P c" "repeat_at_least_dollar P (n - 1) cs"
      by auto
    then show "\<exists>b. (c # cs = b \<or> c # cs = b @ [newline]) \<and> n \<le> length b \<and> list_all P b"
    proof cases
      case 1
      then have "c # cs = [] @ [newline]" by (simp add: dollar_def)
      with 1 show ?thesis by (intro exI [of _ "[]"]) simp
    next
      case 2
      then obtain b where b: "cs = b \<or> cs = b @ [newline]" "n - 1 \<le> length b" "list_all P b"
        using Cons.IH by blast
      with 2 show ?thesis by (intro exI [of _ "c # b"]) auto
    qed
  next
    assume "\<exists>b. (c # cs = b \<or> c # cs = b @ [newline]) \<and> n \<le> length b \<and> list_all P b"
    then obtain b where b: "c # cs = b \<or> c # cs = b @ [newline]" "n \<le> length b" "list_all P b"
      by blast
    show "repeat_at_least_dollar P n (c # cs)"
    proof (cases b)
      case Nil
      with b show ?thesis by (auto simp: dollar_def)
    next
      case (Cons d ds)
      with b have "c = d" "cs = ds \<or> cs = ds @ [newline]" "n - 1 \<le> length ds" "list_all P ds" "P c"
        by auto
      then have "repeat_at_least_dollar P (n - 1) cs" using Cons.IH by blast
      with \<open>P c\<close> show ?thesis by simp
    qed
  qed
qed

lemma lookahead_dotstar_line:
  "list_all (\<lambda>c. c \<noteq> newline) b \<Longrightarrow> \<not> P newline \<Longrightarrow>
   lookahead_dotstar P b = list_ex P b \<and> lookahead_dotstar P (b @ [newline]) = list_ex P b"
  by (induction b) auto

lemma validate_password_iff:
  "validate_password s \<longleftrightarrow>
     (\<exists>b. (s = b \<or> s = b @ [newline]) \<and> 8 \<le> length b \<and> list_all is_alnum b \<and>
          list_ex is_letter b \<and> list_ex is_digit b)"
proof -
  have line: "list_all (\<lambda>c. c \<noteq> newline) b" if "list_all is_alnum b" for b
    using that newline_not_alnum by (induction b) auto
  have nl: "\<not> is_letter newline" "\<not> is_digit newline"
    using newline_not_alnum by (simp_all add: is_alnum_def)
  have look: "lookahead_dotstar P s = list_ex P b"
    if "s = b \<or> s = b @ [newline]" "list_all is_alnum b" "\<not> P newline" for P b
    using lookahead_dotstar_line [of b P] line [OF that(2)] that(1,3) by auto
  show ?thesis
    unfolding validate_password_def repeat_at_least_dollar_iff
    using look nl by blast
qed

text \<open>
  C1. \<open>validate_password\<close> is claimed to accept exactly the strings of at least eight
  characters, all of them letters or digits, with a letter and a digit among them, and so to
  reject every string that contains whitespace. The pattern ends in \<open>$\<close>, which also
  matches just before a final newline: the nine-character string \<open>abc12345\<close> followed by a
  newline is accepted, although the newline is neither a letter nor a digit.
\<close>

theorem validate_password_trailing_newline:
  "validate_password (''abc12345'' @ [CHR 0x0A]) \<and> \<not> is_alnum (CHR 0x0A)"
  by (simp add: validate_password_def char_classes)

text \<open>
  C2. \<open>normalize_phone\<close> is claimed to rewrite the prefix \<open>+254\<close> to a leading zero. The
  plus sign is removed with the other non-digits before the prefix is tested, so the test for
  \<open>+254\<close> never succeeds and only the test for \<open>254\<close> with twelve digits is left: a number
  with the prefix \<open>+254\<close> and eleven digits keeps its \<open>254\<close>.
\<close>

theorem normalize_phone_plus_prefix_kept:
  "normalize_phone ''+25471234567'' = ''25471234567'' \<and>
   normalize_phone ''+25471234567'' \<noteq> ''071234567''"
  by (simp add: normalize_phone_def is_digit_def startswith_def)

text \<open>
  C3. \<open>is_valid_safaricom_phone\<close> normalizes its input; it answers false when the
  normalized string has fewer than ten characters (the empty string included) and when the
  phone-number library does not find it valid; otherwise it answers whether the first four
  characters of the normalized string are in the prefix list. So \<open>0712345678\<close> is accepted
  exactly when the library finds it valid, and \<open>0700000000\<close> is rejected whatever the
  library says.
\<close>

theorem is_valid_safaricom_phone_spec:
  "is_valid_safaricom_phone pn s =
     (10 \<le> length (normalize_phone s) \<and> pn (normalize_phone s) = ValidNumber \<and>
      take 4 (normalize_phone s) \<in> set SAFARICOM_PREFIXES)
   \<and> is_valid_safaricom_phone pn ''0712345678'' = (pn ''0712345678'' = ValidNumber)
   \<and> \<not> is_valid_safaricom_phone pn ''0700000000''"
proof -
  have general: "is_valid_safaricom_phone pn s =
     (10 \<le> length (normalize_phone s) \<and> pn (normalize_phone s) = ValidNumber \<and>
      take 4 (normalize_phone s) \<in> set SAFARICOM_PREFIXES)" for s
    by (auto simp: is_valid_safaricom_phone_def Let_def split: pn_outcome.splits)
  have "is_valid_safaricom_phone pn ''0712345678'' = (pn ''0712345678'' = ValidNumber)"
    by (simp add: general normalize_phone_local_0712 SAFARICOM_PREFIXES_def)
  moreover have "\<not> is_valid_safaricom_phone pn ''0700000000''"
    by (simp add: general normalize_phone_local_0700 SAFARICOM_PREFIXES_def)
  ultimately show ?thesis
    using general by blast
qed

subsection \<open>Registration\<close>

lemma valid_phone_nonempty: "is_valid_safaricom_phone pn p \<Longrightarrow> p \<noteq> []"
  by (auto simp: is_valid_safaricom_phone_def normalize_phone_def)

lemma valid_password_nonempty: "validate_password pw \<Longrightarrow> pw \<noteq> []"
  by (auto simp: validate_password_def)

lemma find_None_list_ex: "(find P xs = None) = (\<not> list_ex P xs)"
  by (induction xs) auto

lemma sample_env_simps:
  "validate_email sample_env (Some s) = (if CHR ''@'' \<in> set s then Returns else RaisesEmailNotValidError)"
  "pn_verdict sample_env t = (if length t = 10 then ValidNumber else InvalidNumber)"
  "generate_password_hash sample_env p = ''hash:'' @ p"
  "check_password_hash sample_env h p = (h = ''hash:'' @ p)"
  "create_access_token sample_env i claims = ''jwt-'' @ i"
  "commit_fault sample_env = None"
  "oauth_userinfo sample_env = Inr (Some [(''email'', ''ann@clinic.org''), (''name'', ''Ann'')])"
  by (simp_all add: sample_env_def)

lemma sample_phone_0712: "is_valid_safaricom_phone (pn_verdict sample_env) ''0712345678''"
  by (simp add: is_valid_safaricom_phone_def normalize_phone_local_0712 sample_env_simps SAFARICOM_PREFIXES_def)

lemma sample_password: "validate_password ''abc12345''"
  by (simp add: validate_password_def char_classes)

text \<open>
  C4. Take a registration request whose email, phone and password pass validation. If some
  stored account has the same email, or some stored account has the same phone number, then
  \<open>register\<close> and \<open>register_admin\<close> answer the one message
  \<open>Email or phone number already registered\<close> with status 400 and leave the store as it
  was; so does \<open>register_user\<close>, for every role, when the request also passes its
  required-field test (the email and the full names are not empty).
\<close>

theorem register_conflict:
  assumes email: "data ''email'' = Some a" "is_valid_email e (Some a) = Inr True"
    and phone: "data ''phone'' = Some p" "is_valid_safaricom_phone (pn_verdict e) p"
    and pw: "data ''password'' = Some pw" "validate_password pw"
    and taken: "list_ex (\<lambda>u. email u = a) db \<or> list_ex (\<lambda>u. phone_number u = p) db"
  shows "register e data db = (Inr already_registered, db)
       \<and> register_admin e data db = (Inr already_registered, db)
       \<and> (a \<noteq> [] \<and> \<not> falsy (data ''userfullnames'') \<longrightarrow>
            register_user e r data db = (Inr already_registered, db))
       \<and> already_registered = (JObj [(''msg'', JStr ''Email or phone number already registered'')], 400)"
proof -
  have p: "p \<noteq> []" using phone(2) by (rule valid_phone_nonempty)
  have w: "pw \<noteq> []" using pw(2) by (rule valid_password_nonempty)
  have q: "query_by_email db (Some a) \<noteq> None \<or> query_by_phone db (Some p) \<noteq> None"
    using taken by (simp add: query_by_email_def query_by_phone_def find_None_list_ex del: not_None_eq)
  have 1: "register e data db = (Inr already_registered, db)"
    using email phone pw p q by (simp add: register_def falsy_def phone_ok_def)
  have 2: "register_admin e data db = (Inr already_registered, db)"
    using email phone pw p q by (simp add: register_admin_def falsy_def phone_ok_def)
  have 3: "register_user e r data db = (Inr already_registered, db)"
    if "a \<noteq> []" "\<not> falsy (data ''userfullnames'')"
    using email phone pw p w q that by (simp add: register_user_def falsy_def phone_ok_def)
  show ?thesis using 1 2 3 by (simp add: already_registered_def msg_def)
qed

theorem register_conflict_witness:
  "register sample_env (sample_body ''ann@clinic.org'' ''0722000000'' ''abc12345'' ''Ann B'') [ann] = (Inr already_registered, [ann])
   \<and> register_user sample_env NURSE (sample_body ''bob@clinic.org'' ''0712345678'' ''abc12345'' ''Bob'') [ann] = (Inr already_registered, [ann])"
proof -
  have e: "is_valid_email sample_env (Some ''ann@clinic.org'') = Inr True"
      "is_valid_email sample_env (Some ''bob@clinic.org'') = Inr True"
    by (simp_all add: is_valid_email_def sample_env_def)
  have n: "normalize_phone ''0722000000'' = ''0722000000''"
    by (simp add: normalize_phone_def is_digit_def startswith_def)
  have ph: "is_valid_safaricom_phone (pn_verdict sample_env) ''0722000000''"
     "is_valid_safaricom_phone (pn_verdict sample_env) ''0712345678''"
    by (simp_all add: is_valid_safaricom_phone_def n normalize_phone_local_0712 sample_env_def SAFARICOM_PREFIXES_def)
  have pw: "validate_password ''abc12345''"
    by (simp add: validate_password_def char_classes)
  have t1: "list_ex (\<lambda>u. email u = ''ann@clinic.org'') [ann] \<or> list_ex (\<lambda>u. phone_number u = ''0722000000'') [ann]"
    by (simp add: ann_def)
  have t2: "list_ex (\<lambda>u. email u = ''bob@clinic.org'') [ann] \<or> list_ex (\<lambda>u. phone_number u = ''0712345678'') [ann]"
    by (simp add: ann_def)
  show ?thesis
    using register_conflict [of "sample_body ''ann@clinic.org'' ''0722000000'' ''abc12345'' ''Ann B''" "''ann@clinic.org''" sample_env "''0722000000''" "''abc12345''" "[ann]" NURSE, OF _ e(1) _ ph(1) _ pw t1]
          register_conflict [of "sample_body ''bob@clinic.org'' ''0712345678'' ''abc12345'' ''Bob''" "''bob@clinic.org''" sample_env "''0712345678''" "''abc12345''" "[ann]" NURSE, OF _ e(2) _ ph(2) _ pw t2]
    by (simp add: sample_body_def falsy_def)
qed

text \<open>
  C5. \<open>register_admin\<close> is claimed to give the same outcomes as \<open>register_user\<close>
  with the role \<open>ADMIN\<close>. On a request with valid email, phone and password and an empty
  \<open>userfullnames\<close>, sent to an empty store, \<open>register_admin\<close> creates the account
  and answers 201, while \<open>register_user\<close> answers 400 from its required-field test and
  creates nothing.
\<close>

theorem register_admin_differs:
  "register_admin sample_env (sample_body ''ann@clinic.org'' ''0712345678'' ''abc12345'' []) [] =
     (Inr (msg ''Admin registered successfully'', 201),
      [\<lparr>user_id = 1, userfullnames = [], password = ''hash:abc12345'',
        email = ''ann@clinic.org'', phone_number = ''0712345678'', role = ADMIN\<rparr>])
   \<and> register_user sample_env ADMIN (sample_body ''ann@clinic.org'' ''0712345678'' ''abc12345'' []) [] =
     (Inr (msg ''Email, phone, password, and full names are required'', 400), [])"
proof -
  have 1: "register_admin sample_env (sample_body ''ann@clinic.org'' ''0712345678'' ''abc12345'' []) [] =
     (Inr (msg ''Admin registered successfully'', 201),
      [\<lparr>user_id = 1, userfullnames = [], password = ''hash:abc12345'',
        email = ''ann@clinic.org'', phone_number = ''0712345678'', role = ADMIN\<rparr>])"
    by (simp add: register_admin_def sample_body_def is_valid_email_def phone_ok_def
          query_by_email_def query_by_phone_def db_add_commit_def fresh_id_def
          sample_env_simps sample_phone_0712 sample_password Let_def)
  have 2: "register_user sample_env ADMIN (sample_body ''ann@clinic.org'' ''0712345678'' ''abc12345'' []) [] =
     (Inr (msg ''Email, phone, password, and full names are required'', 400), [])"
    by (simp add: register_user_def sample_body_def falsy_def)
  show ?thesis using 1 2 by simp
qed

theorem register_admin_differs_witness:
  "fst (register_admin sample_env
          (sample_body ''ann@clinic.org'' ''0712345678'' ''abc12345'' []) []) \<noteq>
   fst (register_user sample_env ADMIN
          (sample_body ''ann@clinic.org'' ''0712345678'' ''abc12345'' []) [])
   \<and> snd (register_admin sample_env
          (sample_body ''ann@clinic.org'' ''0712345678'' ''abc12345'' []) []) \<noteq>
   snd (register_user sample_env ADMIN
          (sample_body ''ann@clinic.org'' ''0712345678'' ''abc12345'' []) [])"
  using register_admin_differs by (simp add: msg_def)

lemma register_created:
  assumes "register e data db = (Inr (b, 201), db')"
  shows "\<exists>u. db' = db @ [u] \<and> data ''phone'' = Some (phone_number u) \<and> data ''email'' = Some (email u)"
  using assms
  by (auto simp: register_def db_add_commit_def Let_def invalid_email_def invalid_phone_def
        weak_password_def already_registered_def
      split: sum.splits option.splits if_splits prod.splits)

lemma register_fresh:
  assumes "validate_email e (Some a) = Returns"
    and "is_valid_safaricom_phone (pn_verdict e) p" "validate_password pw"
    and "commit_fault e = None"
    and "\<not> list_ex (\<lambda>u. email u = a) db" "\<not> list_ex (\<lambda>u. phone_number u = p) db"
  shows "register e (sample_body a p pw n) db =
           (Inr (msg ''User registered successfully'', 201),
            db @ [\<lparr>user_id = fresh_id db, userfullnames = n, password = generate_password_hash e pw,
                   email = a, phone_number = p, role = PATIENT\<rparr>])"
proof -
  have p: "p \<noteq> []" using assms(2) by (rule valid_phone_nonempty)
  have q: "query_by_email db (Some a) = None" "query_by_phone db (Some p) = None"
    using assms(5,6) by (simp_all add: query_by_email_def query_by_phone_def find_None_list_ex)
  show ?thesis
    using assms p q
    by (simp add: register_def sample_body_def is_valid_email_def falsy_def phone_ok_def
          db_add_commit_def Let_def)
qed

lemma register_phone_check:
  assumes "data ''email'' = Some a" "is_valid_email e (Some a) = Inr True"
    and "data ''phone'' = Some p" "is_valid_safaricom_phone (pn_verdict e) p"
    and "data ''password'' = Some w" "validate_password w"
    and "\<not> list_ex (\<lambda>u. email u = a) db"
  shows "(register e data db = (Inr already_registered, db)) = list_ex (\<lambda>u. phone_number u = p) db"
proof -
  have p: "p \<noteq> []" using assms(4) by (rule valid_phone_nonempty)
  have qe: "query_by_email db (Some a) = None"
    using assms(7) by (simp add: query_by_email_def find_None_list_ex)
  have qp: "(query_by_phone db (Some p) = None) = (\<not> list_ex (\<lambda>u. phone_number u = p) db)"
    by (simp add: query_by_phone_def find_None_list_ex)
  show ?thesis
  proof (cases "list_ex (\<lambda>u. phone_number u = p) db")
    case True
    then have "query_by_phone db (Some p) \<noteq> None" using qp by blast
    then have "register e data db = (Inr already_registered, db)"
      using assms(1-3,5,6) p qe by (simp add: register_def falsy_def phone_ok_def assms(4))
    with True show ?thesis by simp
  next
    case False
    then have "query_by_phone db (Some p) = None" using qp by blast
    then have "register e data db \<noteq> (Inr already_registered, db)"
      using assms(1-3,5,6) p qe
      by (simp add: register_def falsy_def phone_ok_def assms(4) already_registered_def msg_def
            split: sum.splits prod.splits)
    with False show ?thesis by simp
  qed
qed

text \<open>
  C9. A successful \<open>register\<close> appends one account whose phone number is the submitted
  string itself, not its normalized form. The duplicate-phone test compares that raw string
  with the stored ones: for a validated request whose email is new, \<open>register\<close> answers
  \<open>Email or phone number already registered\<close> exactly when some stored account has a
  phone number equal to the submitted string. So, when the external validators accept the
  two addresses and the number \<open>0712345678\<close> and the store commits: after
  \<open>0712345678\<close> is registered, a second email with the same string \<open>0712345678\<close> is
  refused, while the same email with \<open>+254712345678\<close> registers, giving two accounts with
  different ids whose stored phone numbers differ and normalize to the same number.
\<close>

theorem register_keeps_raw_phone:
  assumes "validate_email e (Some a1) = Returns" "validate_email e (Some a2) = Returns" "a1 \<noteq> a2"
    and "pn_verdict e ''0712345678'' = ValidNumber"
    and "commit_fault e = None" "validate_password pw"
  shows "(\<forall>data db b db'. register e data db = (Inr (b, 201), db') \<longrightarrow>
            (\<exists>u. db' = db @ [u] \<and> data ''phone'' = Some (phone_number u)))
       \<and> (\<forall>data db a p w.
            data ''email'' = Some a \<and> is_valid_email e (Some a) = Inr True \<and>
            data ''phone'' = Some p \<and> is_valid_safaricom_phone (pn_verdict e) p \<and>
            data ''password'' = Some w \<and> validate_password w \<and>
            \<not> list_ex (\<lambda>u. email u = a) db \<longrightarrow>
              (register e data db = (Inr already_registered, db)) =
                list_ex (\<lambda>u. phone_number u = p) db)
       \<and> (\<exists>u1 u2.
            register e (sample_body a1 ''0712345678'' pw n1) [] =
              (Inr (msg ''User registered successfully'', 201), [u1])
          \<and> register e (sample_body a2 ''0712345678'' pw n2) [u1] = (Inr already_registered, [u1])
          \<and> register e (sample_body a2 ''+254712345678'' pw n2) [u1] =
              (Inr (msg ''User registered successfully'', 201), [u1, u2])
          \<and> phone_number u1 = ''0712345678'' \<and> phone_number u2 = ''+254712345678''
          \<and> user_id u1 \<noteq> user_id u2
          \<and> normalize_phone (phone_number u1) = normalize_phone (phone_number u2))"
proof -
  let ?u1 = "\<lparr>user_id = fresh_id [], userfullnames = n1, password = generate_password_hash e pw,
               email = a1, phone_number = ''0712345678'', role = PATIENT\<rparr>"
  let ?u2 = "\<lparr>user_id = fresh_id [?u1], userfullnames = n2, password = generate_password_hash e pw,
               email = a2, phone_number = ''+254712345678'', role = PATIENT\<rparr>"
  have v1: "is_valid_safaricom_phone (pn_verdict e) ''0712345678''"
    using assms(4) by (simp add: is_valid_safaricom_phone_def normalize_phone_local_0712 SAFARICOM_PREFIXES_def)
  have v2: "is_valid_safaricom_phone (pn_verdict e) ''+254712345678''"
    using assms(4) by (simp add: is_valid_safaricom_phone_def normalize_phone_examples(1) SAFARICOM_PREFIXES_def)
  have r1: "register e (sample_body a1 ''0712345678'' pw n1) [] =
              (Inr (msg ''User registered successfully'', 201), [?u1])"
    using register_fresh [OF assms(1) v1 assms(6) assms(5), of "[]" n1] by simp
  have r2: "register e (sample_body a2 ''+254712345678'' pw n2) [?u1] =
              (Inr (msg ''User registered successfully'', 201), [?u1, ?u2])"
    using register_fresh [OF assms(2) v2 assms(6) assms(5), of "[?u1]" n2] assms(3) by simp
  have e2: "is_valid_email e (Some a2) = Inr True"
    using assms(2) by (simp add: is_valid_email_def)
  have r3: "register e (sample_body a2 ''0712345678'' pw n2) [?u1] = (Inr already_registered, [?u1])"
    using register_phone_check [of "sample_body a2 ''0712345678'' pw n2" a2 e "''0712345678''" pw "[?u1]",
            OF _ e2 _ v1 _ assms(6)] assms(3)
    by (simp add: sample_body_def)
  have ids: "user_id ?u1 \<noteq> user_id ?u2" by (simp add: fresh_id_def)
  have gen: "\<forall>data db b db'. register e data db = (Inr (b, 201), db') \<longrightarrow>
            (\<exists>u. db' = db @ [u] \<and> data ''phone'' = Some (phone_number u))"
    using register_created by blast
  have chk: "\<forall>data db a p w.
            data ''email'' = Some a \<and> is_valid_email e (Some a) = Inr True \<and>
            data ''phone'' = Some p \<and> is_valid_safaricom_phone (pn_verdict e) p \<and>
            data ''password'' = Some w \<and> validate_password w \<and>
            \<not> list_ex (\<lambda>u. email u = a) db \<longrightarrow>
              (register e data db = (Inr already_registered, db)) =
                list_ex (\<lambda>u. phone_number u = p) db"
    using register_phone_check by blast
  have "register e (sample_body a1 ''0712345678'' pw n1) [] =
              (Inr (msg ''User registered successfully'', 201), [?u1])
          \<and> register e (sample_body a2 ''0712345678'' pw n2) [?u1] = (Inr already_registered, [?u1])
          \<and> register e (sample_body a2 ''+254712345678'' pw n2) [?u1] =
              (Inr (msg ''User registered successfully'', 201), [?u1, ?u2])
          \<and> phone_number ?u1 = ''0712345678'' \<and> phone_number ?u2 = ''+254712345678''
          \<and> user_id ?u1 \<noteq> user_id ?u2
          \<and> normalize_phone (phone_number ?u1) = normalize_phone (phone_number ?u2)"
    using r1 r2 r3 ids by (simp add: normalize_phone_local_0712 normalize_phone_examples(1))
  then have "\<exists>u1 u2.
            register e (sample_body a1 ''0712345678'' pw n1) [] =
              (Inr (msg ''User registered successfully'', 201), [u1])
          \<and> register e (sample_body a2 ''0712345678'' pw n2) [u1] = (Inr already_registered, [u1])
          \<and> register e (sample_body a2 ''+254712345678'' pw n2) [u1] =
              (Inr (msg ''User registered successfully'', 201), [u1, u2])
          \<and> phone_number u1 = ''0712345678'' \<and> phone_number u2 = ''+254712345678''
          \<and> user_id u1 \<noteq> user_id u2
          \<and> normalize_phone (phone_number u1) = normalize_phone (phone_number u2)"
    by blast
  with gen chk show ?thesis by blast
qed

theorem register_keeps_raw_phone_witness:
  "\<exists>u1 u2.
      register sample_env (sample_body ''ann@clinic.org'' ''0712345678'' ''abc12345'' ''Ann'') [] =
        (Inr (msg ''User registered successfully'', 201), [u1])
    \<and> register sample_env (sample_body ''bob@clinic.org'' ''0712345678'' ''abc12345'' ''Bob'') [u1] =
        (Inr already_registered, [u1])
    \<and> register sample_env (sample_body ''bob@clinic.org'' ''+254712345678'' ''abc12345'' ''Bob'') [u1] =
        (Inr (msg ''User registered successfully'', 201), [u1, u2])
    \<and> phone_number u1 = ''0712345678'' \<and> phone_number u2 = ''+254712345678''
    \<and> user_id u1 \<noteq> user_id u2
    \<and> normalize_phone (phone_number u1) = normalize_phone (phone_number u2)"
  using register_keeps_raw_phone [of sample_env "''ann@clinic.org''" "''bob@clinic.org''" "''abc12345''" "''Ann''" "''Bob''"]
  by (simp add: sample_env_simps sample_password)

subsection \<open>The role gate\<close>

text \<open>
  C6. For a token that passes verification, the gate answers 403 \<open>Forbidden: Access Denied\<close>
  whatever the wrapped view is, leaving the state untouched (the view is not run), exactly
  when the claims have no \<open>role\<close> or a \<open>role\<close> other than the required string;
  when the \<open>role\<close> claim is the required string the gate's result is the view's result.
\<close>

theorem role_required_gate:
  "((\<forall>fn. role_required required_role (Some claims) fn st = (Inr (msg ''Forbidden: Access Denied'', 403), st))
      \<longleftrightarrow> (''role'' \<notin> dom claims \<or> claims ''role'' \<noteq> Some (JStr required_role)))
   \<and> (claims ''role'' = Some (JStr required_role) \<longrightarrow>
        role_required required_role (Some claims) fn st = fn st)"
proof -
  have deny: "role_required required_role (Some claims) fn st = (Inr (msg ''Forbidden: Access Denied'', 403), st)"
    if "''role'' \<notin> dom claims \<or> claims ''role'' \<noteq> Some (JStr required_role)" for fn :: "'a view"
    using that by (simp add: role_required_def)
  have pass: "role_required required_role (Some claims) fn st = fn st"
    if "claims ''role'' = Some (JStr required_role)" for fn :: "'a view"
    using that by (auto simp: role_required_def)
  have conv: "''role'' \<notin> dom claims \<or> claims ''role'' \<noteq> Some (JStr required_role)"
    if all: "\<forall>fn. role_required required_role (Some claims) fn st = (Inr (msg ''Forbidden: Access Denied'', 403), st)"
  proof (rule ccontr)
    assume "\<not> ?thesis"
    then have eq: "claims ''role'' = Some (JStr required_role)" by auto
    have "role_required required_role (Some claims) (\<lambda>s. (Inl TypeError, s)) st = (Inl TypeError, st)"
      using pass [OF eq] by simp
    with all show False by simp
  qed
  show ?thesis using deny pass conv by blast
qed

theorem role_required_gate_witness:
  "role_required ''ADMIN'' (Some [''role'' \<mapsto> JStr ''PATIENT'']) (\<lambda>s::nat. (Inr (msg ''ok'', 200), Suc s)) 0
      = (Inr (msg ''Forbidden: Access Denied'', 403), 0)
   \<and> role_required ''PATIENT'' (Some [''role'' \<mapsto> JStr ''PATIENT'']) (\<lambda>s::nat. (Inr (msg ''ok'', 200), Suc s)) 0
      = (Inr (msg ''ok'', 200), 1)"
  using role_required_gate [of "''ADMIN''" "[''role'' \<mapsto> JStr ''PATIENT'']" "0::nat"]
        role_required_gate [of "''PATIENT''" "[''role'' \<mapsto> JStr ''PATIENT'']" "0::nat" "\<lambda>s::nat. (Inr (msg ''ok'', 200), Suc s)"]
  by simp

subsection \<open>Login\<close>

text \<open>
  C10. For login requests that carry an email and a password, the answer when no account has
  the email and the answer when an account has it but the password check fails are the same
  response: status 401 with the body \<open>{"error": "Invalid email or password"}\<close>.
\<close>

theorem login_unknown_email_same_as_wrong_password:
  assumes "\<not> falsy (data ''email'')" "\<not> falsy (data ''password'')"
    and "query_by_email db (data ''email'') = None"
    and "\<not> falsy (data' ''email'')" "data' ''password'' = Some p" "p \<noteq> []"
    and "query_by_email db' (data' ''email'') = Some u"
    and "\<not> check_password_hash e' (password u) p"
  shows "login e data db = login e' data' db'
       \<and> login e data db = (JObj [(''error'', JStr ''Invalid email or password'')], 401)"
  using assms by (simp add: login_def falsy_def invalid_credentials_def err_def Let_def)

theorem login_unknown_email_same_as_wrong_password_witness:
  "login sample_env [''email'' \<mapsto> ''bob@clinic.org'', ''password'' \<mapsto> ''abc12345''] [ann]
   = login sample_env [''email'' \<mapsto> ''ann@clinic.org'', ''password'' \<mapsto> ''wrong123''] [ann]
  \<and> login sample_env [''email'' \<mapsto> ''ann@clinic.org'', ''password'' \<mapsto> ''abc12345''] [ann]
   \<noteq> (JObj [(''error'', JStr ''Invalid email or password'')], 401)"
proof -
  have ok: "login sample_env [''email'' \<mapsto> ''ann@clinic.org'', ''password'' \<mapsto> ''abc12345''] [ann]
   \<noteq> (JObj [(''error'', JStr ''Invalid email or password'')], 401)"
    by (simp add: login_def falsy_def query_by_email_def ann_def sample_env_simps)
  have "login sample_env [''email'' \<mapsto> ''bob@clinic.org'', ''password'' \<mapsto> ''abc12345''] [ann]
   = login sample_env [''email'' \<mapsto> ''ann@clinic.org'', ''password'' \<mapsto> ''wrong123''] [ann]"
    using login_unknown_email_same_as_wrong_password
      [of "[''email'' \<mapsto> ''bob@clinic.org'', ''password'' \<mapsto> ''abc12345'']" "[ann]"
          "[''email'' \<mapsto> ''ann@clinic.org'', ''password'' \<mapsto> ''wrong123'']" "''wrong123''" "[ann]" ann sample_env sample_env]
    by (simp add: falsy_def query_by_email_def ann_def sample_env_simps)
  with ok show ?thesis by simp
qed

subsection \<open>The OAuth callback\<close>

lemma callback_pops: "fst (snd (google_callback e rs s db)) ''oauth_state'' = None"
  by (simp add: google_callback_def establish_def Let_def split: sum.splits option.splits prod.splits)

lemma callback_csrf:
  "s ''oauth_state'' = None \<or> rs = None \<or> s ''oauth_state'' \<noteq> map_option JStr rs
   \<Longrightarrow> google_callback e rs s db = (csrf_error, s(''oauth_state'' := None), db)"
  by (auto simp: google_callback_def Let_def)

text \<open>
  C7. After every callback the session holds no \<open>oauth_state\<close>. When the stored state
  or the state of the query string is missing, or the two differ, the callback answers the
  CSRF error with status 400, whatever the identity provider would have said, and changes
  nothing else. Hence a callback that follows any callback, whatever state it presents,
  answers the CSRF error: a state can be used once.
\<close>

theorem google_callback_state_single_use:
  "fst (snd (google_callback e rs s db)) ''oauth_state'' = None
   \<and> (s ''oauth_state'' = None \<or> rs = None \<or> s ''oauth_state'' \<noteq> map_option JStr rs \<longrightarrow>
        google_callback e rs s db = (csrf_error, s(''oauth_state'' := None), db))
   \<and> fst (google_callback e' rs' (fst (snd (google_callback e rs s db)))
                              (snd (snd (google_callback e rs s db)))) = csrf_error
   \<and> csrf_error = (JObj [(''error'', JStr ''Invalid state, possible CSRF attack'')], 400)"
  using callback_csrf [of "fst (snd (google_callback e rs s db))" rs' e' "snd (snd (google_callback e rs s db))"]
        callback_csrf [of s rs e db] callback_pops [of e rs s db]
  by (simp add: csrf_error_def err_def)

theorem google_callback_state_single_use_witness:
  "fst (google_callback sample_env (Some ''abc'') [''oauth_state'' \<mapsto> JStr ''xyz''] [ann]) = csrf_error
  \<and> fst (google_callback sample_env (Some ''xyz'') [''oauth_state'' \<mapsto> JStr ''xyz''] [ann]) \<noteq> csrf_error
  \<and> fst (google_callback sample_env (Some ''xyz'')
       (fst (snd (google_callback sample_env (Some ''xyz'') [''oauth_state'' \<mapsto> JStr ''xyz''] [ann])))
       (snd (snd (google_callback sample_env (Some ''xyz'') [''oauth_state'' \<mapsto> JStr ''xyz''] [ann])))) = csrf_error"
proof -
  have ok: "fst (google_callback sample_env (Some ''xyz'') [''oauth_state'' \<mapsto> JStr ''xyz''] [ann]) \<noteq> csrf_error"
    by (simp add: google_callback_def falsy_def sample_env_simps query_by_email_def ann_def establish_def csrf_error_def err_def)
  show ?thesis
  using google_callback_state_single_use [of sample_env "Some ''abc''" "[''oauth_state'' \<mapsto> JStr ''xyz'']" "[ann]"]
     google_callback_state_single_use [of sample_env "Some ''xyz''" "[''oauth_state'' \<mapsto> JStr ''xyz'']" "[ann]" sample_env "Some ''xyz''"] ok
  by simp
qed

subsection \<open>Password reset\<close>

lemma sample_env_unsign:
  "unsign sample_env ''good'' = Some (''ann@clinic.org'', 10)"
  "unsign sample_env ''old'' = Some (''ann@clinic.org'', 3601)"
  "unsign sample_env ''forged'' = None"
  by (simp_all add: sample_env_def)

text \<open>
  C8, as claimed: every request answers 200 or 400. It fails for a valid token whose email
  matches no account: with a password of six characters the answer is 404 \<open>User not found\<close>.
\<close>

theorem reset_password_not_found:
  "reset_password sample_env ''good'' [''password'' \<mapsto> ''abcdef''] [] =
     (Inr (JObj [(''msg'', JStr ''User not found'')], 404), [])"
  by (simp add: reset_password_def serializer_loads_def sample_env_unsign falsy_def
        query_by_email_def msg_def)

text \<open>
  C8, amended. A token that is not validly signed, or is older than 3600 seconds, gets 400
  \<open>Invalid or expired token\<close>. With a valid token, a missing password or one shorter than
  six characters gets 400; a password of six characters or more gets 404 \<open>User not found\<close>
  when no account has the token's email, and otherwise, when the commit succeeds, 200 with the
  account's password hash replaced. When the commit does not fail the status is always one of
  200, 400 and 404.
\<close>

theorem reset_password_outcomes:
  "(unsign e token = None \<longrightarrow>
      reset_password e token data db = (Inr (msg ''Invalid or expired token'', 400), db))
   \<and> (\<forall>a age. unsign e token = Some (a, age) \<and> 3600 < age \<longrightarrow>
      reset_password e token data db = (Inr (msg ''Invalid or expired token'', 400), db))
   \<and> (\<forall>a age. unsign e token = Some (a, age) \<and> age \<le> 3600 \<longrightarrow>
        (data ''password'' = None \<longrightarrow>
           reset_password e token data db =
             (Inr (msg ''Password must be at least 6 characters long'', 400), db))
      \<and> (\<forall>p. data ''password'' = Some p \<and> length p < 6 \<longrightarrow>
           reset_password e token data db =
             (Inr (msg ''Password must be at least 6 characters long'', 400), db))
      \<and> (\<forall>p. data ''password'' = Some p \<and> 6 \<le> length p \<longrightarrow>
           (query_by_email db (Some a) = None \<longrightarrow>
              reset_password e token data db = (Inr (msg ''User not found'', 404), db))
         \<and> (\<forall>u. query_by_email db (Some a) = Some u \<and> commit_fault e = None \<longrightarrow>
              reset_password e token data db =
                (Inr (msg ''Password reset successful'', 200),
                 set_password db u (generate_password_hash e p)))))
   \<and> (commit_fault e = None \<longrightarrow>
        (\<exists>b. fst (reset_password e token data db) = Inr (b, 200)
           \<or> fst (reset_password e token data db) = Inr (b, 400)
           \<or> fst (reset_password e token data db) = Inr (b, 404)))"
proof -
  have 1: "unsign e token = None \<longrightarrow>
      reset_password e token data db = (Inr (msg ''Invalid or expired token'', 400), db)"
    by (simp add: reset_password_def serializer_loads_def)
  have 2: "\<forall>a age. unsign e token = Some (a, age) \<and> 3600 < age \<longrightarrow>
      reset_password e token data db = (Inr (msg ''Invalid or expired token'', 400), db)"
    by (simp add: reset_password_def serializer_loads_def)
  have 3: "\<forall>a age. unsign e token = Some (a, age) \<and> age \<le> 3600 \<longrightarrow>
        (data ''password'' = None \<longrightarrow>
           reset_password e token data db =
             (Inr (msg ''Password must be at least 6 characters long'', 400), db))
      \<and> (\<forall>p. data ''password'' = Some p \<and> length p < 6 \<longrightarrow>
           reset_password e token data db =
             (Inr (msg ''Password must be at least 6 characters long'', 400), db))
      \<and> (\<forall>p. data ''password'' = Some p \<and> 6 \<le> length p \<longrightarrow>
           (query_by_email db (Some a) = None \<longrightarrow>
              reset_password e token data db = (Inr (msg ''User not found'', 404), db))
         \<and> (\<forall>u. query_by_email db (Some a) = Some u \<and> commit_fault e = None \<longrightarrow>
              reset_password e token data db =
                (Inr (msg ''Password reset successful'', 200),
                 set_password db u (generate_password_hash e p))))"
    by (auto simp: reset_password_def serializer_loads_def falsy_def Let_def)
  have 4: "commit_fault e = None \<longrightarrow>
        (\<exists>b. fst (reset_password e token data db) = Inr (b, 200)
           \<or> fst (reset_password e token data db) = Inr (b, 400)
           \<or> fst (reset_password e token data db) = Inr (b, 404))"
    by (simp add: reset_password_def serializer_loads_def Let_def split: option.splits prod.splits)
  show ?thesis using 1 2 3 4 by blast
qed

theorem reset_password_outcomes_witness:
  "reset_password sample_env ''forged'' [''password'' \<mapsto> ''abcdef''] [ann] =
     (Inr (msg ''Invalid or expired token'', 400), [ann])
   \<and> reset_password sample_env ''old'' [''password'' \<mapsto> ''abcdef''] [ann] =
     (Inr (msg ''Invalid or expired token'', 400), [ann])
   \<and> reset_password sample_env ''good'' Map.empty [ann] =
     (Inr (msg ''Password must be at least 6 characters long'', 400), [ann])
   \<and> reset_password sample_env ''good'' [''password'' \<mapsto> ''abc12''] [ann] =
     (Inr (msg ''Password must be at least 6 characters long'', 400), [ann])
   \<and> reset_password sample_env ''good'' [''password'' \<mapsto> ''abcdef''] [ann\<lparr>email := ''eve@clinic.org''\<rparr>] =
     (Inr (msg ''User not found'', 404), [ann\<lparr>email := ''eve@clinic.org''\<rparr>])
   \<and> reset_password sample_env ''good'' [''password'' \<mapsto> ''abcdef''] [ann] =
     (Inr (msg ''Password reset successful'', 200), [ann\<lparr>password := ''hash:abcdef''\<rparr>])"
proof -
  have q: "query_by_email [ann] (Some ''ann@clinic.org'') = Some ann"
     "query_by_email [ann\<lparr>email := ''eve@clinic.org''\<rparr>] (Some ''ann@clinic.org'') = None"
    by (simp_all add: query_by_email_def ann_def)
  have c: "commit_fault sample_env = None" by (simp add: sample_env_simps)
  have h: "set_password [ann] ann (generate_password_hash sample_env ''abcdef'') = [ann\<lparr>password := ''hash:abcdef''\<rparr>]"
    by (simp add: set_password_def sample_env_simps)
  show ?thesis
    using reset_password_outcomes [of sample_env "''forged''" "[''password'' \<mapsto> ''abcdef'']" "[ann]"]
      reset_password_outcomes [of sample_env "''old''" "[''password'' \<mapsto> ''abcdef'']" "[ann]"]
      reset_password_outcomes [of sample_env "''good''" Map.empty "[ann]"]
      reset_password_outcomes [of sample_env "''good''" "[''password'' \<mapsto> ''abc12'']" "[ann]"]
      reset_password_outcomes [of sample_env "''good''" "[''password'' \<mapsto> ''abcdef'']" "[ann\<lparr>email := ''eve@clinic.org''\<rparr>]"]
      reset_password_outcomes [of sample_env "''good''" "[''password'' \<mapsto> ''abcdef'']" "[ann]"]
    by (simp add: sample_env_unsign q c h)
qed

end
